theory Spec2Isabelle
  imports Main
begin

section \<open>JavaScript strings and the string primitives used by the admin screens\<close>

text \<open>
  A JavaScript string is modelled as a list of 8-bit characters, read as the code units
  U+0000 .. U+00FF. The primitives below follow ECMAScript on that range.
\<close>

definition code :: "char \<Rightarrow> nat" where
  "code c = of_char c"

text \<open>The regular-expression class \<^verbatim>\<open>\s\<close>, which is also the set \<^verbatim>\<open>String.prototype.trim\<close>
  removes: TAB, LF, VT, FF, CR, SPACE and NO-BREAK SPACE.\<close>

definition is_space :: "char \<Rightarrow> bool" where
  "is_space c = ((9 \<le> code c \<and> code c \<le> 13) \<or> code c = 32 \<or> code c = 160)"

definition is_hyphen :: "char \<Rightarrow> bool" where
  "is_hyphen c = (c = CHR ''-'')"

definition is_lower_az :: "char \<Rightarrow> bool" where
  "is_lower_az c = (97 \<le> code c \<and> code c \<le> 122)"

definition is_digit :: "char \<Rightarrow> bool" where
  "is_digit c = (48 \<le> code c \<and> code c \<le> 57)"

text \<open>\<^verbatim>\<open>String.prototype.toLowerCase\<close>: A-Z and the upper-case letters of U+00C0 .. U+00DE
  (U+00D7, the multiplication sign, is not a letter) move up by 32.\<close>

definition toLowerCase_char :: "char \<Rightarrow> char" where
  "toLowerCase_char c =
     (if (65 \<le> code c \<and> code c \<le> 90) \<or> (192 \<le> code c \<and> code c \<le> 222 \<and> code c \<noteq> 215)
      then char_of (code c + 32) else c)"

definition toLowerCase :: "string \<Rightarrow> string" where
  "toLowerCase s = map toLowerCase_char s"

text \<open>\<^verbatim>\<open>s.replace(/[^...]/g, '')\<close> with a negated character class: every character outside
  the class is deleted.\<close>

definition remove_outside :: "(char \<Rightarrow> bool) \<Rightarrow> string \<Rightarrow> string" where
  "remove_outside cls s = filter cls s"

text \<open>\<^verbatim>\<open>s.replace(/X+/g, r)\<close> for a character class X: every maximal run of characters of the
  class is replaced by \<open>r\<close>.\<close>

function replace_runs :: "(char \<Rightarrow> bool) \<Rightarrow> string \<Rightarrow> string \<Rightarrow> string" where
  "replace_runs cls r [] = []"
| "replace_runs cls r (c # cs) =
     (if cls c then r @ replace_runs cls r (dropWhile cls cs)
      else c # replace_runs cls r cs)"
  by pat_completeness auto
termination
  by (relation "measure (\<lambda>(cls, r, s). length s)")
     (auto simp: less_Suc_eq_le length_dropWhile_le)

text \<open>\<^verbatim>\<open>String.prototype.trim\<close> takes no parameter: an argument passed to it is ignored, and
  white space is removed from both ends.\<close>

definition trim :: "string \<Rightarrow> string" where
  "trim s = rev (dropWhile is_space (rev (dropWhile is_space s)))"

section \<open>The new-page form: slug derivation\<close>

text \<open>The class \<^verbatim>\<open>[a-z0-9\s-]\<close> of \<^verbatim>\<open>handleInputChange\<close>.\<close>

definition slug_class :: "char \<Rightarrow> bool" where
  "slug_class c = (is_lower_az c \<or> is_digit c \<or> is_space c \<or> is_hyphen c)"

text \<open>
  The expression of \<^verbatim>\<open>handleInputChange\<close>:
  \<^verbatim>\<open>value.toLowerCase().replace(/[^a-z0-9\s-]/g, '').replace(/\s+/g, '-').replace(/-+/g, '-').trim('-')\<close>
\<close>

definition derive_slug :: "string \<Rightarrow> string" where
  "derive_slug v =
     trim (replace_runs is_hyphen ''-''
            (replace_runs is_space ''-''
              (remove_outside slug_class (toLowerCase v))))"

text \<open>The properties a derived slug is expected to have.\<close>

definition slug_char :: "char \<Rightarrow> bool" where
  "slug_char c = (is_lower_az c \<or> is_digit c \<or> is_hyphen c)"

fun no_hyphen_run :: "string \<Rightarrow> bool" where
  "no_hyphen_run [] = True"
| "no_hyphen_run [c] = True"
| "no_hyphen_run (a # b # cs) = (\<not> (is_hyphen a \<and> is_hyphen b) \<and> no_hyphen_run (b # cs))"

definition no_edge_hyphen :: "string \<Rightarrow> bool" where
  "no_edge_hyphen s = (if s = [] then True else \<not> is_hyphen (hd s) \<and> \<not> is_hyphen (last s))"

section \<open>The new-page form: state and \<^verbatim>\<open>handleInputChange\<close>\<close>

text \<open>
  \<^verbatim>\<open>formData\<close> is an object keyed by field name; a field holds a string or, for the
  check box, a boolean. \<^verbatim>\<open>[name]: ...\<close> stores under whatever name the event carries.
\<close>

datatype fval = FStr string | FBool bool

type_synonym formData = "string \<rightharpoonup> fval"

text \<open>JavaScript \<^verbatim>\<open>!x\<close> on a field: undefined, the empty string and false are falsy.\<close>

definition falsy :: "fval option \<Rightarrow> bool" where
  "falsy x = (case x of None \<Rightarrow> True | Some (FStr s) \<Rightarrow> s = [] | Some (FBool b) \<Rightarrow> \<not> b)"

definition initial_formData :: formData where
  "initial_formData =
     [''title'' \<mapsto> FStr [], ''slug'' \<mapsto> FStr [], ''status'' \<mapsto> FStr ''draft'',
      ''content'' \<mapsto> FStr [], ''excerpt'' \<mapsto> FStr [], ''section_id'' \<mapsto> FStr [],
      ''template_name'' \<mapsto> FStr ''default'', ''requires_auth'' \<mapsto> FBool False,
      ''featured_image'' \<mapsto> FStr [], ''meta_title'' \<mapsto> FStr [],
      ''meta_description'' \<mapsto> FStr [], ''canonical_url'' \<mapsto> FStr [],
      ''robots_txt'' \<mapsto> FStr ''index, follow'', ''og_title'' \<mapsto> FStr [],
      ''og_description'' \<mapsto> FStr []]"

text \<open>The part of \<^verbatim>\<open>e.target\<close> the handler reads.\<close>

record target =
  name :: string
  val :: string
  type_t :: string
  checked :: bool

text \<open>
  \<^verbatim>\<open>handleInputChange\<close>. The three \<^verbatim>\<open>setFormData(prev => ...)\<close> updaters run in order on
  the state; the two guards read \<^verbatim>\<open>formData\<close>, the state of the render in which the event
  fired, which is the state the handler starts from.
\<close>

definition handleInputChange :: "target \<Rightarrow> formData \<Rightarrow> formData" where
  "handleInputChange e formData =
     (let prev1 = formData(name e \<mapsto>
                    (if type_t e = ''checkbox'' then FBool (checked e) else FStr (val e)));
          prev2 = (if name e = ''title'' \<and> falsy (formData ''slug'')
                   then prev1(''slug'' \<mapsto> FStr (derive_slug (val e))) else prev1);
          prev3 = (if name e = ''title'' \<and> falsy (formData ''meta_title'')
                   then prev2(''meta_title'' \<mapsto> FStr (val e)) else prev2)
      in prev3)"

text \<open>An editing session: the change events of the form, in order.\<close>

fun session :: "target list \<Rightarrow> formData \<Rightarrow> formData" where
  "session [] formData = formData"
| "session (e # es) formData = session es (handleInputChange e formData)"

text \<open>Typing \<open>v\<close> into the text input called \<open>n\<close>.\<close>

definition typing :: "string \<Rightarrow> string \<Rightarrow> target" where
  "typing n v = \<lparr>name = n, val = v, type_t = ''text'', checked = False\<rparr>"

section \<open>The dashboard: \<^verbatim>\<open>loadDashboardData\<close>\<close>

text \<open>
  \<^verbatim>\<open>response.data\<close> as the dashboard reads it: a bare array, or an object that may carry a
  \<^verbatim>\<open>results\<close> array and may carry a numeric \<^verbatim>\<open>length\<close> property of its own.
\<close>

datatype 'a data = Array "'a list" | Object "'a list option" "nat option"

text \<open>\<^verbatim>\<open>data.results?.length\<close> and \<^verbatim>\<open>data.length\<close>; \<open>None\<close> is \<^verbatim>\<open>undefined\<close>.\<close>

fun results_length :: "'a data \<Rightarrow> nat option" where
  "results_length (Array xs) = None"
| "results_length (Object r l) = map_option length r"

fun data_length :: "'a data \<Rightarrow> nat option" where
  "data_length (Array xs) = Some (length xs)"
| "data_length (Object r l) = l"

text \<open>JavaScript \<^verbatim>\<open>a || b\<close> on numbers: \<^verbatim>\<open>undefined\<close> and 0 are falsy.\<close>

definition js_or :: "nat option \<Rightarrow> nat option \<Rightarrow> nat option" where
  "js_or a b = (if a = None \<or> a = Some 0 then b else a)"

text \<open>\<^verbatim>\<open>res.data.results?.length || res.data.length || 0\<close>\<close>

definition stat_count :: "'a data \<Rightarrow> nat" where
  "stat_count d =
     (case js_or (js_or (results_length d) (data_length d)) (Some 0) of
        Some n \<Rightarrow> n | None \<Rightarrow> 0)"

record DashboardStats =
  pages :: nat
  blogPosts :: nat
  sections :: nat
  contentBlocks :: nat

record dashboard =
  stats :: DashboardStats
  isLoading :: bool

definition initial_dashboard :: dashboard where
  "initial_dashboard =
     \<lparr>stats = \<lparr>pages = 0, blogPosts = 0, sections = 0, contentBlocks = 0\<rparr>, isLoading = True\<rparr>"

text \<open>
  \<^verbatim>\<open>Promise.all\<close> over the four requests, each settled as a rejection (\<open>Inl\<close>) or a
  response (\<open>Inr\<close>): one rejection rejects the whole; the reason reported is that of the
  first rejected request in argument order.
\<close>

definition promise_all ::
  "'e + 'a \<Rightarrow> 'e + 'b \<Rightarrow> 'e + 'c \<Rightarrow> 'e + 'd \<Rightarrow> 'e + ('a \<times> 'b \<times> 'c \<times> 'd)" where
  "promise_all p b s c =
     (case p of Inl e \<Rightarrow> Inl e | Inr pv \<Rightarrow>
      (case b of Inl e \<Rightarrow> Inl e | Inr bv \<Rightarrow>
       (case s of Inl e \<Rightarrow> Inl e | Inr sv \<Rightarrow>
        (case c of Inl e \<Rightarrow> Inl e | Inr cv \<Rightarrow> Inr (pv, bv, sv, cv)))))"

text \<open>
  \<^verbatim>\<open>loadDashboardData\<close>, given how \<^verbatim>\<open>getPages\<close>, \<^verbatim>\<open>getBlogPosts\<close>, \<^verbatim>\<open>getSections\<close> and
  \<^verbatim>\<open>getContentBlocks\<close> settle. It returns the new state and what \<^verbatim>\<open>console.error\<close> got.
\<close>

definition loadDashboardData ::
  "'e + 'a data \<Rightarrow> 'e + 'b data \<Rightarrow> 'e + 'c data \<Rightarrow> 'e + 'd data \<Rightarrow> dashboard
     \<Rightarrow> dashboard \<times> (string \<times> 'e) list" where
  "loadDashboardData pagesReq blogReq sectionsReq blocksReq st =
     (case promise_all pagesReq blogReq sectionsReq blocksReq of
        Inr (pagesRes, blogRes, sectionsRes, blocksRes) \<Rightarrow>
          (st\<lparr>stats := \<lparr>pages = stat_count pagesRes, blogPosts = stat_count blogRes,
                       sections = stat_count sectionsRes,
                       contentBlocks = stat_count blocksRes\<rparr>,
              isLoading := False\<rparr>, [])
      | Inl err \<Rightarrow>
          (st\<lparr>isLoading := False\<rparr>, [(''Failed to load dashboard data:'', err)]))"

section \<open>Numbers as text\<close>

text \<open>A non-negative integer in a template literal, and \<^verbatim>\<open>Number.prototype.toString\<close> on an
  integer: its decimal digits.\<close>

definition digit_char :: "nat \<Rightarrow> char" where
  "digit_char d = char_of (48 + d)"

function show_nat :: "nat \<Rightarrow> string" where
  "show_nat n = (if n < 10 then [digit_char n] else show_nat (n div 10) @ [digit_char (n mod 10)])"
  by pat_completeness auto
termination
  by (relation "measure id") auto

declare show_nat.simps [simp del]

definition toString :: "int \<Rightarrow> string" where
  "toString i = (if i < 0 then CHR ''-'' # show_nat (nat (- i)) else show_nat (nat i))"

text \<open>\<^verbatim>\<open>s.startsWith(p)\<close>\<close>

definition startsWith :: "string \<Rightarrow> string \<Rightarrow> bool" where
  "startsWith s p = (take (length p) s = p)"

section \<open>The Image Upload control\<close>

text \<open>The fields of a browser \<^verbatim>\<open>File\<close> the control reads: \<^verbatim>\<open>name\<close>, \<^verbatim>\<open>size\<close>, \<^verbatim>\<open>type\<close>.\<close>

record File =
  fname :: string
  fsize :: nat
  ftype :: string

text \<open>The props that \<^verbatim>\<open>onDrop\<close> depends on, and the component state.\<close>

record props =
  currentImage :: "string option"
  maxSize :: nat

definition default_maxSize :: nat where
  "default_maxSize = 5242880"

record upload_state =
  uploading :: bool
  preview :: "string option"
  error :: "string option"

text \<open>The descriptor the backend returns (\<^verbatim>\<open>MediaFile\<close>): the stored-file locator and the
  metadata the backend derives.\<close>

record MediaFile =
  "file" :: string
  file_size :: nat
  mime_type :: string

text \<open>What the control does to the outside: object URLs created and revoked, the upload
  request, the parent callback, the console.\<close>

datatype effect =
    CreateObjectURL string
  | RevokeObjectURL string
  | UploadMedia File string string
  | OnUpload string "MediaFile option"
  | ConsoleError string

text \<open>\<^verbatim>\<open>x || null\<close> on an optional string, and \<^verbatim>\<open>x || fallback\<close>.\<close>

definition or_null :: "string option \<Rightarrow> string option" where
  "or_null x = (if x = Some [] then None else x)"

definition or_text :: "string option \<Rightarrow> string \<Rightarrow> string" where
  "or_text x d = (case or_null x of None \<Rightarrow> d | Some m \<Rightarrow> m)"

text \<open>
  \<^verbatim>\<open>Math.round(maxSize / 1024 / 1024)\<close>. For an integer \<^verbatim>\<open>maxSize\<close> both divisions are exact
  in binary floating point, and \<^verbatim>\<open>Math.round\<close> rounds halves up, so the value is
  \<open>\<lfloor>maxSize / 2\<^sup>2\<^sup>0 + 1/2\<rfloor>\<close>.
\<close>

definition round_mb :: "nat \<Rightarrow> nat" where
  "round_mb n = (n + 524288) div 1048576"

definition size_error :: "nat \<Rightarrow> string" where
  "size_error n = ''File size must be less than '' @ show_nat (round_mb n) @ ''MB''"

definition initial_upload_state :: "props \<Rightarrow> upload_state" where
  "initial_upload_state p = \<lparr>uploading = False, preview = or_null (currentImage p), error = None\<rparr>"

text \<open>Where \<^verbatim>\<open>onDrop\<close> stands once its synchronous part is over: it has returned, or it
  awaits \<^verbatim>\<open>api.uploadMedia\<close> holding the preview URL it created.\<close>

datatype phase = Returned | Awaiting string

text \<open>
  \<^verbatim>\<open>onDrop\<close> up to the \<^verbatim>\<open>await\<close>. \<open>url\<close> is what \<^verbatim>\<open>URL.createObjectURL\<close> returns when it
  is called.
\<close>

definition onDrop_begin ::
  "props \<Rightarrow> string \<Rightarrow> File list \<Rightarrow> upload_state \<Rightarrow> upload_state \<times> effect list \<times> phase" where
  "onDrop_begin p url acceptedFiles st =
     (case acceptedFiles of
        [] \<Rightarrow> (st, [], Returned)
      | f # _ \<Rightarrow>
          if fsize f > maxSize p
            then (st\<lparr>error := Some (size_error (maxSize p))\<rparr>, [], Returned)
          else if \<not> startsWith (ftype f) ''image/''
            then (st\<lparr>error := Some ''Please upload an image file''\<rparr>, [], Returned)
          else (st\<lparr>uploading := True, error := None, preview := Some url\<rparr>,
                [CreateObjectURL url, UploadMedia f (fname f) ''uploads''],
                Awaiting url))"

text \<open>
  \<^verbatim>\<open>onDrop\<close> from the \<^verbatim>\<open>await\<close> on: the upload resolved with a descriptor (\<open>Inr\<close>), or it
  rejected (\<open>Inl\<close>, carrying \<^verbatim>\<open>error.response?.data?.message\<close>); \<^verbatim>\<open>finally\<close> runs on both.
\<close>

definition onDrop_settle ::
  "props \<Rightarrow> string \<Rightarrow> string option + MediaFile \<Rightarrow> upload_state \<Rightarrow> upload_state \<times> effect list" where
  "onDrop_settle p previewUrl outcome st =
     (case outcome of
        Inr imageData \<Rightarrow>
          (st\<lparr>uploading := False\<rparr>,
           [OnUpload (file imageData) (Some imageData), RevokeObjectURL previewUrl])
      | Inl message \<Rightarrow>
          (st\<lparr>error := Some (or_text message ''Upload failed. Please try again.''),
              preview := or_null (currentImage p),
              uploading := False\<rparr>,
           [ConsoleError ''Upload failed:'']))"

text \<open>One whole upload attempt.\<close>

definition onDrop ::
  "props \<Rightarrow> string \<Rightarrow> string option + MediaFile \<Rightarrow> File list \<Rightarrow> upload_state
     \<Rightarrow> upload_state \<times> effect list" where
  "onDrop p url outcome acceptedFiles st =
     (case onDrop_begin p url acceptedFiles st of
        (st1, fx1, Returned) \<Rightarrow> (st1, fx1)
      | (st1, fx1, Awaiting previewUrl) \<Rightarrow>
          (case onDrop_settle p previewUrl outcome st1 of
             (st2, fx2) \<Rightarrow> (st2, fx1 @ fx2)))"

text \<open>
  The drop surface. \<^verbatim>\<open>useDropzone({onDrop, accept: {[accept]: []}, multiple: false, maxSize})\<close>
  comes from the react-dropzone package, which is not part of the repository; its filter
  is taken as the package documents it. A selected file is handed to \<^verbatim>\<open>onDrop\<close> in
  \<^verbatim>\<open>acceptedFiles\<close> only when its type matches \<^verbatim>\<open>accept\<close> and its size is at most
  \<^verbatim>\<open>maxSize\<close>; a file failing either test goes to the second argument of the callback
  (\<^verbatim>\<open>fileRejections\<close>), which this \<^verbatim>\<open>onDrop\<close> does not take, and \<^verbatim>\<open>acceptedFiles\<close> is
  empty. The type test is the parameter \<open>type_ok\<close>.
\<close>

definition acceptedFiles_of :: "(File \<Rightarrow> bool) \<Rightarrow> props \<Rightarrow> File \<Rightarrow> File list" where
  "acceptedFiles_of type_ok p f = (if type_ok f \<and> fsize f \<le> maxSize p then [f] else [])"

text \<open>The control as the user meets it: one file is selected on the drop surface.\<close>

definition selectFile ::
  "(File \<Rightarrow> bool) \<Rightarrow> props \<Rightarrow> string \<Rightarrow> string option + MediaFile \<Rightarrow> File \<Rightarrow> upload_state
     \<Rightarrow> upload_state \<times> effect list" where
  "selectFile type_ok p url outcome f st =
     onDrop p url outcome (acceptedFiles_of type_ok p f) st"

definition removeImage :: "upload_state \<Rightarrow> upload_state \<times> effect list" where
  "removeImage st = (st\<lparr>preview := None, error := None\<rparr>, [OnUpload [] None])"

text \<open>How often an attempt created and released the preview URL \<open>u\<close>, and the
  references it handed to the parent.\<close>

definition created :: "string \<Rightarrow> effect list \<Rightarrow> nat" where
  "created u fx = count_list fx (CreateObjectURL u)"

definition released :: "string \<Rightarrow> effect list \<Rightarrow> nat" where
  "released u fx = count_list fx (RevokeObjectURL u)"


section \<open>The pages list view\<close>

text \<open>The fields of \<^verbatim>\<open>Page\<close> the list view computes with (\<^verbatim>\<open>id\<close>, \<^verbatim>\<open>section_id\<close>) and the
  title it shows.\<close>

record Page =
  page_id :: int
  title :: string
  section_id :: int

record pages_state =
  pages_s :: "Page list"
  isLoading_s :: bool
  selectedSection :: string

datatype pages_effect =
    Confirm string
  | DeletePage int
  | GetPages
  | GetSections
  | LogError string

text \<open>
  \<^verbatim>\<open>handleDeletePage\<close>, given the answer to \<^verbatim>\<open>confirm(...)\<close> and how \<^verbatim>\<open>api.deletePage\<close>
  settles (\<open>Inl\<close> is a rejection). \<open>clicked\<close> is the \<^verbatim>\<open>pages\<close> array the handler's closure
  holds, the list of the render in which Delete was clicked; \<open>st\<close> is the state when the
  request settles. \<^verbatim>\<open>setPages(pages.filter(...))\<close> filters the former and writes it over the
  latter.
\<close>

definition handleDeletePage ::
  "int \<Rightarrow> bool \<Rightarrow> 'e + unit \<Rightarrow> Page list \<Rightarrow> pages_state
     \<Rightarrow> pages_state \<times> pages_effect list" where
  "handleDeletePage i confirmed outcome clicked st =
     (if \<not> confirmed
        then (st, [Confirm ''Are you sure you want to delete this page?''])
      else (case outcome of
              Inr _ \<Rightarrow>
                (st\<lparr>pages_s := filter (\<lambda>page. page_id page \<noteq> i) clicked\<rparr>,
                 [Confirm ''Are you sure you want to delete this page?'', DeletePage i])
            | Inl _ \<Rightarrow>
                (st,
                 [Confirm ''Are you sure you want to delete this page?'', DeletePage i,
                  LogError ''Failed to delete page:''])))"

text \<open>\<^verbatim>\<open>filteredPages\<close>\<close>

definition filteredPages :: "string \<Rightarrow> Page list \<Rightarrow> Page list" where
  "filteredPages sel ps =
     (if sel = ''all'' then ps
      else filter (\<lambda>page. toString (section_id page) = sel) ps)"

text \<open>The \<^verbatim>\<open>onChange\<close> of the section filter: \<^verbatim>\<open>setSelectedSection(e.target.value)\<close>.\<close>

definition selectSection :: "string \<Rightarrow> pages_state \<Rightarrow> pages_state \<times> pages_effect list" where
  "selectSection v st = (st\<lparr>selectedSection := v\<rparr>, [])"

text \<open>What \<^verbatim>\<open>PagesManagement\<close> renders: the spinner, the empty state with its message, or
  the grid of cards.\<close>

datatype view = Spinner | EmptyState string | Grid "Page list"

definition render :: "pages_state \<Rightarrow> view" where
  "render st =
     (if isLoading_s st then Spinner
      else if length (filteredPages (selectedSection st) (pages_s st)) = 0
        then EmptyState (if selectedSection st = ''all''
                         then ''Get started by creating your first page.''
                         else ''No pages found in this section.'')
      else Grid (filteredPages (selectedSection st) (pages_s st)))"

section \<open>Facts about the string primitives\<close>

lemma code_hyphen: "code CHR ''-'' = 45"
  by (simp add: code_def)

lemma slug_char_not_space: "slug_char c \<Longrightarrow> \<not> is_space c"
  by (auto simp: slug_char_def is_space_def is_lower_az_def is_digit_def is_hyphen_def code_hyphen)

lemma slug_char_lower: "slug_char c \<Longrightarrow> toLowerCase_char c = c"
  by (auto simp: slug_char_def toLowerCase_char_def is_lower_az_def is_digit_def is_hyphen_def
      code_hyphen)

lemma slug_char_class: "slug_char c \<Longrightarrow> slug_class c"
  by (auto simp: slug_char_def slug_class_def)

lemma replace_runs_none: "\<forall>c \<in> set s. \<not> cls c \<Longrightarrow> replace_runs cls r s = s"
  by (induction s) auto

lemma set_replace_runs: "set (replace_runs cls r s) \<subseteq> set r \<union> {c \<in> set s. \<not> cls c}"
proof (induction cls r s rule: replace_runs.induct)
  case (1 cls r)
  show ?case by simp
next
  case (2 cls r c cs)
  show ?case
  proof (cases "cls c")
    case True
    have "set (dropWhile cls cs) \<subseteq> set cs" by (auto dest: set_dropWhileD)
    with True 2(1) show ?thesis by auto
  next
    case False
    with 2(2) show ?thesis by auto
  qed
qed

lemma dropWhile_shape:
  "dropWhile cls cs = [] \<or> (\<exists>x ys. dropWhile cls cs = x # ys \<and> \<not> cls x)"
proof (cases "dropWhile cls cs")
  case Nil
  then show ?thesis by blast
next
  case (Cons x ys)
  with hd_dropWhile [of cls cs] have "\<not> cls x" by simp
  with Cons show ?thesis by blast
qed

lemma no_hyphen_run_Cons: "\<not> is_hyphen c \<Longrightarrow> no_hyphen_run (c # s) = no_hyphen_run s"
  by (cases s) auto

text \<open>After \<^verbatim>\<open>replace(/-+/g, '-')\<close> no two hyphens are adjacent.\<close>

lemma no_hyphen_run_replace: "no_hyphen_run (replace_runs is_hyphen ''-'' s)"
proof (induction "is_hyphen" "''-''" s rule: replace_runs.induct)
  case 1
  show ?case by simp
next
  case (2 c cs)
  show ?case
  proof (cases "is_hyphen c")
    case True
    from dropWhile_shape [of is_hyphen cs] show ?thesis
    proof
      assume e: "dropWhile is_hyphen cs = []"
      have "replace_runs is_hyphen ''-'' (c # cs) = ''-''"
        using True by (simp add: e del: dropWhile_eq_Nil_conv)
      then show ?thesis by simp
    next
      assume "\<exists>x ys. dropWhile is_hyphen cs = x # ys \<and> \<not> is_hyphen x"
      then obtain x ys where d: "dropWhile is_hyphen cs = x # ys" and x: "\<not> is_hyphen x"
        by blast
      from 2(1) [OF True] d x have "no_hyphen_run (x # replace_runs is_hyphen ''-'' ys)"
        by simp
      with True d x show ?thesis by simp
    qed
  next
    case False
    with 2(2) show ?thesis by (simp add: no_hyphen_run_Cons)
  qed
qed

lemma replace_runs_fixed: "no_hyphen_run s \<Longrightarrow> replace_runs is_hyphen ''-'' s = s"
proof (induction s rule: no_hyphen_run.induct)
  case 1
  show ?case by simp
next
  case (2 c)
  show ?case by (simp add: is_hyphen_def)
next
  case (3 a b cs)
  then show ?case by (auto simp: is_hyphen_def)
qed

lemma dropWhile_none: "\<forall>c \<in> set s. \<not> cls c \<Longrightarrow> dropWhile cls s = s"
  by (cases s) auto

lemma trim_none: "\<forall>c \<in> set s. \<not> is_space c \<Longrightarrow> trim s = s"
  by (simp add: trim_def dropWhile_none)

section \<open>Slug derivation\<close>

text \<open>The value before \<^verbatim>\<open>trim\<close> holds only letters a-z, digits and hyphens, so \<^verbatim>\<open>trim\<close>,
  which removes white space, leaves it as it is.\<close>

lemma before_trim_chars:
  "\<forall>c \<in> set (replace_runs is_hyphen ''-'' (replace_runs is_space ''-''
                  (remove_outside slug_class (toLowerCase v)))). slug_char c"
proof
  let ?a = "remove_outside slug_class (toLowerCase v)"
  let ?b = "replace_runs is_space ''-'' ?a"
  fix c assume c: "c \<in> set (replace_runs is_hyphen ''-'' ?b)"
  from c set_replace_runs [of is_hyphen "''-''" ?b]
  have "c = CHR ''-'' \<or> (c \<in> set ?b \<and> \<not> is_hyphen c)" by auto
  then show "slug_char c"
  proof
    assume "c = CHR ''-''"
    then show ?thesis by (simp add: slug_char_def is_hyphen_def)
  next
    assume h: "c \<in> set ?b \<and> \<not> is_hyphen c"
    with set_replace_runs [of is_space "''-''" ?a]
    have "c \<in> set ?a \<and> \<not> is_space c" by (auto simp: is_hyphen_def)
    then show ?thesis by (auto simp: remove_outside_def slug_class_def slug_char_def)
  qed
qed

lemma derive_slug_before_trim:
  "derive_slug v = replace_runs is_hyphen ''-'' (replace_runs is_space ''-''
                     (remove_outside slug_class (toLowerCase v)))"
  unfolding derive_slug_def
  by (rule trim_none) (auto dest: before_trim_chars [rule_format] slug_char_not_space)

lemma derive_slug_chars: "list_all slug_char (derive_slug v)"
  by (simp add: derive_slug_before_trim list_all_iff before_trim_chars)

lemma derive_slug_no_run: "no_hyphen_run (derive_slug v)"
  by (simp add: derive_slug_before_trim no_hyphen_run_replace)

lemma derive_slug_fixed:
  assumes a: "list_all slug_char s" and b: "no_hyphen_run s"
  shows "derive_slug s = s"
proof -
  have 1: "toLowerCase s = s"
    using a by (simp add: toLowerCase_def list_all_iff map_idI slug_char_lower)
  have 2: "remove_outside slug_class s = s"
    using a by (simp add: remove_outside_def list_all_iff slug_char_class)
  have 3: "replace_runs is_space ''-'' s = s"
    using a by (intro replace_runs_none) (auto simp: list_all_iff slug_char_not_space)
  have 4: "trim s = s"
    using a by (intro trim_none) (auto simp: list_all_iff slug_char_not_space)
  show ?thesis
    by (simp add: derive_slug_def 1 2 3 4 replace_runs_fixed [OF b])
qed

text \<open>
  C1. The slug derived from a title is meant to hold only lower-case letters, digits and
  hyphens, with no hyphen at either end and no two hyphens in a row. The characters and
  the runs are as stated (\<open>derive_slug_chars\<close>, \<open>derive_slug_no_run\<close>), but
  \<^verbatim>\<open>.trim('-')\<close> removes white space, not hyphens: typing the title \<^verbatim>\<open>" hello"\<close> into the
  fresh form sets the slug to \<^verbatim>\<open>"-hello"\<close>, which starts with a hyphen.
\<close>

theorem title_slug_leading_hyphen:
  "handleInputChange (typing ''title'' '' hello'') initial_formData ''slug''
     = Some (FStr ''-hello'')
   \<and> \<not> no_edge_hyphen ''-hello''"
  by (simp add: handleInputChange_def typing_def initial_formData_def falsy_def Let_def
      no_edge_hyphen_def is_hyphen_def derive_slug_def trim_def toLowerCase_def
      remove_outside_def slug_class_def toLowerCase_char_def is_space_def is_lower_az_def
      is_digit_def code_def)

text \<open>
  C10. Slug derivation is idempotent: deriving a slug from a derived slug returns it
  unchanged.
\<close>

theorem derive_slug_idempotent: "derive_slug (derive_slug v) = derive_slug v"
  by (rule derive_slug_fixed [OF derive_slug_chars derive_slug_no_run])

theorem derive_slug_idempotent_witness:
  "derive_slug ''about-aaron-coleman'' = ''about-aaron-coleman''"
proof -
  have "derive_slug ''About Aaron Coleman'' = ''about-aaron-coleman''"
    by code_simp
  with derive_slug_idempotent [of "''About Aaron Coleman''"] show ?thesis
    by simp
qed

section \<open>The new-page form: when the slug follows the title\<close>

lemma handleInputChange_keeps_slug:
  "name e \<noteq> ''slug'' \<Longrightarrow> \<not> falsy (fd ''slug'')
     \<Longrightarrow> handleInputChange e fd ''slug'' = fd ''slug''"
  by (simp add: handleInputChange_def Let_def)

lemma session_keeps_slug:
  "list_all (\<lambda>e. name e \<noteq> ''slug'') es \<Longrightarrow> \<not> falsy (fd ''slug'')
     \<Longrightarrow> session es fd ''slug'' = fd ''slug''"
proof (induction es arbitrary: fd)
  case Nil
  show ?case by simp
next
  case (Cons e es)
  from Cons.prems have e: "name e \<noteq> ''slug''"
    and es: "list_all (\<lambda>e. name e \<noteq> ''slug'') es" by simp_all
  have k: "handleInputChange e fd ''slug'' = fd ''slug''"
    using e Cons.prems(2) by (rule handleInputChange_keeps_slug)
  with Cons.prems(2) have "\<not> falsy (handleInputChange e fd ''slug'')" by simp
  with Cons.IH [OF es] k show ?case by simp
qed

text \<open>
  C2, as the code has it. The guard is \<^verbatim>\<open>!formData.slug\<close>: while the slug field holds a
  non-empty value, typed or derived, no sequence of edits to the title or to any field
  other than the slug changes it; and whenever the slug field is empty when the title is
  edited, the slug is set to the one derived from the new title.
\<close>

theorem slug_frozen_while_nonempty:
  "(list_all (\<lambda>e. name e \<noteq> ''slug'') es \<and> \<not> falsy (fd ''slug'')
      \<longrightarrow> session es fd ''slug'' = fd ''slug'')
   \<and> (name e = ''title'' \<and> falsy (fd' ''slug'')
      \<longrightarrow> handleInputChange e fd' ''slug'' = Some (FStr (derive_slug (val e))))"
  by (simp add: session_keeps_slug) (simp add: handleInputChange_def Let_def)

theorem slug_frozen_while_nonempty_witness:
  "session [typing ''title'' ''b c'', typing ''excerpt'' ''z'']
       (initial_formData(''slug'' \<mapsto> FStr ''x'')) ''slug'' = Some (FStr ''x'')
   \<and> handleInputChange (typing ''title'' ''a b'') initial_formData ''slug''
       = Some (FStr (derive_slug ''a b''))"
  using slug_frozen_while_nonempty
    [of "[typing ''title'' ''b c'', typing ''excerpt'' ''z'']"
        "initial_formData(''slug'' \<mapsto> FStr ''x'')"
        "typing ''title'' ''a b''" initial_formData]
  by (simp add: typing_def initial_formData_def falsy_def)

text \<open>
  C2 as stated fails: the user types \<^verbatim>\<open>x\<close> into the slug field, clears it, and then
  types the title \<^verbatim>\<open>a b\<close>; the title edit changes the slug from empty to \<^verbatim>\<open>a-b\<close>.
\<close>

theorem slug_rederived_after_clear:
  "session [typing ''slug'' ''x'', typing ''slug'' []] initial_formData ''slug''
     = Some (FStr [])
   \<and> session [typing ''slug'' ''x'', typing ''slug'' [], typing ''title'' ''a b'']
       initial_formData ''slug''
     = Some (FStr ''a-b'')"
  by (simp add: handleInputChange_def typing_def initial_formData_def falsy_def Let_def
      derive_slug_def trim_def toLowerCase_def remove_outside_def slug_class_def
      toLowerCase_char_def is_space_def is_hyphen_def is_lower_az_def is_digit_def code_def)

section \<open>The dashboard counts\<close>

text \<open>
  C8, as the code has it. A non-empty nested \<^verbatim>\<open>results\<close> list gives the count, whatever
  else the response carries; an envelope with no length of its own counts its
  \<^verbatim>\<open>results\<close>; an empty or absent \<^verbatim>\<open>results\<close> list falls through to the response's
  own length (for a bare collection, its length); with neither the count is zero.
\<close>

theorem stat_count_shapes:
  "((rs :: 'a list) \<noteq> [] \<longrightarrow> stat_count (Object (Some rs) l) = length rs)
   \<and> stat_count (Object (Some rs) None) = length rs
   \<and> stat_count (Object (Some []) (Some n) :: 'a data) = n
   \<and> stat_count (Object None (Some n) :: 'a data) = n
   \<and> stat_count (Array (xs :: 'a list)) = length xs
   \<and> stat_count (Object None None :: 'a data) = 0"
  by (auto simp: stat_count_def js_or_def)

theorem stat_count_shapes_witness:
  "[1::nat, 2] \<noteq> [] \<and> stat_count (Object (Some [1::nat, 2]) (Some 7)) = length [1::nat, 2]"
  using stat_count_shapes [of "[1::nat, 2]" "Some 7" 0 "[]"]
  by simp

text \<open>
  C8 as stated fails when both shapes are present and the nested list is empty: for
  \<^verbatim>\<open>{results: [], length: 5}\<close> the count is 5, not the length of \<^verbatim>\<open>results\<close>.
\<close>

theorem empty_results_falls_through_to_length:
  "stat_count (Object (Some ([] :: nat list)) (Some 5)) \<noteq> length ([] :: nat list)"
  by (simp add: stat_count_def js_or_def)

text \<open>
  C3, as the code has it. \<^verbatim>\<open>Promise.all\<close> is all or nothing: when any of the four
  requests rejects, the error is logged once, the loading flag is cleared and the four
  counts stay as they were; the counts are set from the responses only when all four
  requests resolve.
\<close>

theorem dashboard_all_or_nothing:
  "(isl (p :: 'e + 'a data) \<or> isl (b :: 'e + 'b data) \<or> isl (s :: 'e + 'c data)
      \<or> isl (c :: 'e + 'd data) \<longrightarrow>
      (\<exists>err. loadDashboardData p b s c st =
         (st\<lparr>isLoading := False\<rparr>, [(''Failed to load dashboard data:'', err)])))
   \<and> loadDashboardData (Inr pv :: 'e + 'a data) (Inr bv :: 'e + 'b data)
         (Inr sv :: 'e + 'c data) (Inr cv :: 'e + 'd data) st =
       (st\<lparr>stats := \<lparr>pages = stat_count pv, blogPosts = stat_count bv,
                     sections = stat_count sv, contentBlocks = stat_count cv\<rparr>,
           isLoading := False\<rparr>, [])"
  by (auto simp: loadDashboardData_def promise_all_def isl_def split: sum.splits)

theorem dashboard_all_or_nothing_witness:
  "isl (Inl ''500'' :: string + nat data)
   \<and> (\<exists>err. loadDashboardData (Inr (Array [1::nat])) (Inl ''500'' :: string + nat data)
               (Inr (Array [2::nat])) (Inr (Array [3::nat])) initial_dashboard
        = (initial_dashboard\<lparr>isLoading := False\<rparr>,
           [(''Failed to load dashboard data:'', err)]))"
  using dashboard_all_or_nothing
    [of "Inr (Array [1::nat])" "Inl ''500'' :: string + nat data" "Inr (Array [2::nat])"
        "Inr (Array [3::nat])" initial_dashboard
        "Array [1::nat]" "Array [1::nat]" "Array [2::nat]" "Array [3::nat]"]
  by simp

text \<open>
  C3 as stated fails: the pages request rejects, the other three resolve with one item
  each, and the dashboard shows zero for all four counts.
\<close>

theorem dashboard_one_rejection_zeroes_all:
  "stats (fst (loadDashboardData (Inl ''500'' :: string + nat data) (Inr (Array [1::nat]))
                 (Inr (Array [2::nat]))
                 (Inr (Array [3::nat])) initial_dashboard))
     = \<lparr>pages = 0, blogPosts = 0, sections = 0, contentBlocks = 0\<rparr>"
  by (simp add: loadDashboardData_def promise_all_def initial_dashboard_def)

section \<open>The Image Upload control\<close>

text \<open>The size branch of \<^verbatim>\<open>onDrop\<close>: a file larger than \<^verbatim>\<open>maxSize\<close> that reached the
  handler would set the size message and do nothing else.\<close>

lemma onDrop_oversize_branch:
  "maxSize p < fsize f \<Longrightarrow>
     onDrop p u outcome (f # fs) st = (st\<lparr>error := Some (size_error (maxSize p))\<rparr>, [])"
  by (simp add: onDrop_def onDrop_begin_def)

text \<open>The drop surface never hands such a file over: \<^verbatim>\<open>onDrop\<close> gets the empty list and
  returns at \<^verbatim>\<open>if (!file) return\<close>, leaving the state as it is.\<close>

lemma selectFile_oversize:
  "maxSize p < fsize f \<Longrightarrow> selectFile type_ok p u outcome f st = (st, [])"
  by (simp add: selectFile_def acceptedFiles_of_def onDrop_def onDrop_begin_def)

text \<open>
  C6. A selected file larger than \<^verbatim>\<open>maxSize\<close> is meant to be rejected with no request, no
  uploading state and an inline error naming the size limit. Nothing is requested and the
  uploading flag stays off, but no error is shown: with the default limit of 5242880
  bytes, selecting an image of 5242881 bytes on the fresh control leaves \<^verbatim>\<open>error\<close> empty,
  whatever the type test lets through. The size message of \<^verbatim>\<open>onDrop\<close> is never reached,
  because \<^verbatim>\<open>useDropzone\<close> is given the same \<^verbatim>\<open>maxSize\<close> and filters the file out first.
\<close>

theorem oversize_selection_shows_no_error:
  "selectFile type_ok \<lparr>currentImage = None, maxSize = default_maxSize\<rparr> ''blob:1'' (Inl None)
     \<lparr>fname = ''big.png'', fsize = 5242881, ftype = ''image/png''\<rparr>
     \<lparr>uploading = False, preview = None, error = None\<rparr>
   = (\<lparr>uploading = False, preview = None, error = None\<rparr>, [])"
  by (simp add: selectFile_def acceptedFiles_of_def default_maxSize_def onDrop_def
      onDrop_begin_def)

text \<open>
  C4. Every exit path of an upload attempt is meant to release the preview URL it created
  exactly once. The success path revokes it; the \<^verbatim>\<open>catch\<close> path does not: when the
  backend rejects the upload of an accepted image, the URL is created once and never
  revoked.
\<close>

theorem failed_upload_leaks_preview:
  "snd (onDrop \<lparr>currentImage = None, maxSize = default_maxSize\<rparr> ''blob:1'' (Inl None)
         [\<lparr>fname = ''a.png'', fsize = 1000, ftype = ''image/png''\<rparr>]
         \<lparr>uploading = False, preview = None, error = None\<rparr>)
     = [CreateObjectURL ''blob:1'',
        UploadMedia \<lparr>fname = ''a.png'', fsize = 1000, ftype = ''image/png''\<rparr> ''a.png''
          ''uploads'',
        ConsoleError ''Upload failed:'']
   \<and> created ''blob:1''
        (snd (onDrop \<lparr>currentImage = None, maxSize = default_maxSize\<rparr> ''blob:1'' (Inl None)
         [\<lparr>fname = ''a.png'', fsize = 1000, ftype = ''image/png''\<rparr>]
         \<lparr>uploading = False, preview = None, error = None\<rparr>)) = 1
   \<and> released ''blob:1''
        (snd (onDrop \<lparr>currentImage = None, maxSize = default_maxSize\<rparr> ''blob:1'' (Inl None)
         [\<lparr>fname = ''a.png'', fsize = 1000, ftype = ''image/png''\<rparr>]
         \<lparr>uploading = False, preview = None, error = None\<rparr>)) = 0"
  by (simp add: onDrop_def onDrop_begin_def onDrop_settle_def default_maxSize_def
      startsWith_def created_def released_def)




section \<open>The pages list view\<close>

text \<open>What an accepted delete writes: the clicked list without the pages of that id.\<close>

lemma handleDeletePage_accepted:
  "handleDeletePage i True (Inr ()) clicked st =
     (st\<lparr>pages_s := filter (\<lambda>page. page_id page \<noteq> i) clicked\<rparr>,
      [Confirm ''Are you sure you want to delete this page?'', DeletePage i])"
  by (simp add: handleDeletePage_def)




text \<open>
  C9. The section filter is a function of the fetched list and the selected value alone,
  and selecting a section requests nothing and leaves the fetched list as it is. The value
  \<^verbatim>\<open>all\<close> gives the whole list; a section no page belongs to gives the empty list, which
  is rendered as the empty state with its message.
\<close>

theorem section_filter_contract:
  "filteredPages ''all'' ps = ps
   \<and> snd (selectSection sel st) = []
   \<and> pages_s (fst (selectSection sel st)) = pages_s st
   \<and> (sel \<noteq> ''all'' \<and> list_all (\<lambda>page. toString (section_id page) \<noteq> sel) ps \<longrightarrow>
        filteredPages sel ps = []
        \<and> render \<lparr>pages_s = ps, isLoading_s = False, selectedSection = sel\<rparr>
            = EmptyState ''No pages found in this section.'')"
proof -
  have "filter (\<lambda>page. toString (section_id page) = sel) ps = []"
    if "list_all (\<lambda>page. toString (section_id page) \<noteq> sel) ps"
    using that by (induction ps) auto
  then show ?thesis
    by (auto simp: filteredPages_def selectSection_def render_def)
qed

theorem section_filter_contract_witness:
  "filteredPages ''5'' [\<lparr>page_id = 1, title = ''About'', section_id = 3\<rparr>,
                        \<lparr>page_id = 2, title = ''Music'', section_id = 4\<rparr>] = []
   \<and> render \<lparr>pages_s = [\<lparr>page_id = 1, title = ''About'', section_id = 3\<rparr>,
                        \<lparr>page_id = 2, title = ''Music'', section_id = 4\<rparr>],
              isLoading_s = False, selectedSection = ''5''\<rparr>
       = EmptyState ''No pages found in this section.''"
proof -
  have 3: "toString 3 = ''3''" by code_simp
  have 4: "toString 4 = ''4''" by code_simp
  from section_filter_contract
    [of "[\<lparr>page_id = 1, title = ''About'', section_id = 3\<rparr>,
          \<lparr>page_id = 2, title = ''Music'', section_id = 4\<rparr>]" "''5''"]
  show ?thesis by (simp add: 3 4)
qed

end
